theory Spec2Isabelle
  imports Complex_Main "HOL-Library.Word" "HOL-Library.Log_Nat"
begin

section \<open>Number types of the C++ sources\<close>

text \<open>
  Conventions of the embedding:
  \<^item> \<^verbatim>\<open>UInt_t\<close> is \<open>32 word\<close>: \<open>+\<close> and \<open>-\<close> wrap modulo \<open>2 ^ 32\<close> and \<open>\<le>\<close> is the
    unsigned order, as in C++.
  \<^item> \<^verbatim>\<open>int\<close> is a \<open>32 word\<close> read as two's complement by \<open>sint\<close>; storing it into a
    \<^verbatim>\<open>UInt_t\<close> member keeps the bit pattern.
  \<^item> \<^verbatim>\<open>double\<close> is IEEE 754 binary64: a finite value (a real number with a 53-bit
    significand and an exponent between -1022 and 1023, subnormals included), negative
    zero, the two infinities, or a NaN. Every arithmetic operation computes the exact
    result and rounds it once, to nearest with ties to even; results of magnitude
    \<open>2 ^ 1024\<close> or more after rounding become infinities. Operations are not fused and
    no wider intermediate format is used.
  \<^item> the conversion \<^verbatim>\<open>(int) d\<close> of a double truncates towards zero; C++ leaves it
    undefined when the truncated value does not fit a 32-bit \<^verbatim>\<open>int\<close>, and for an
    infinity or a NaN; the model returns \<open>None\<close> there.
\<close>

type_synonym UInt_t = "32 word"
type_synonym Int_t = "32 word"

datatype double = Finite real | NegZero | PosInf | NegInf | NaN

text \<open>
  \<open>Finite 0\<close> is positive zero. \<open>ilog2 x\<close> is the binary exponent of a positive real,
  the integer \<open>k\<close> with \<open>2 ^ k \<le> x < 2 ^ (k + 1)\<close>.
\<close>

definition ilog2 :: "real \<Rightarrow> int" where
  "ilog2 x =
     (if 1 \<le> x then bitlen \<lfloor>x\<rfloor> - 1
      else (let k = bitlen \<lfloor>1 / x\<rfloor> - 1
            in if x * 2 ^ nat k = 1 then - k else - k - 1))"

text \<open>Rounding to the nearest integer, a tie going to the even neighbour.\<close>

definition round_even :: "real \<Rightarrow> int" where
  "round_even y =
     (let f = \<lfloor>y\<rfloor>; d = y - real_of_int f
      in if d < 1 / 2 then f
         else if 1 / 2 < d then f + 1
         else if even f then f else f + 1)"

definition scale2 :: "real \<Rightarrow> int \<Rightarrow> real" where
  "scale2 x q = (if 0 \<le> q then x * 2 ^ nat q else x / 2 ^ nat (- q))"

text \<open>
  Rounding a nonzero real to 53 significant bits: the spacing of the doubles around \<open>r\<close>
  is \<open>2 ^ q\<close> with \<open>q\<close> the exponent of \<open>r\<close> (at least -1022, where the subnormals
  begin) less 52.
\<close>

definition round_finite :: "real \<Rightarrow> real" where
  "round_finite r =
     (let q = max (ilog2 \<bar>r\<bar>) (- 1022) - 52
      in scale2 (real_of_int (round_even (scale2 r (- q)))) q)"

text \<open>
  The double an operation returns for the exact result \<open>r\<close>; \<open>neg\<close> is the sign the
  operation gives an exact zero.
\<close>

definition round_to_double :: "bool \<Rightarrow> real \<Rightarrow> double" where
  "round_to_double neg r =
     (if r = 0 then (if neg then NegZero else Finite 0)
      else (let y = round_finite r
            in if 2 ^ 1024 \<le> \<bar>y\<bar> then (if 0 < r then PosInf else NegInf)
               else if y = 0 then (if r < 0 then NegZero else Finite 0)
               else Finite y))"

text \<open>The values of the datatype that are doubles: rounding leaves them as they are.\<close>

definition is_double :: "double \<Rightarrow> bool" where
  "is_double d = (case d of Finite r \<Rightarrow> round_to_double False r = Finite r | _ \<Rightarrow> True)"

definition sign_neg :: "double \<Rightarrow> bool" where
  "sign_neg d =
     (case d of Finite r \<Rightarrow> r < 0 | NegZero \<Rightarrow> True | PosInf \<Rightarrow> False | NegInf \<Rightarrow> True
      | NaN \<Rightarrow> False)"

definition is_zero :: "double \<Rightarrow> bool" where
  "is_zero d = (case d of Finite r \<Rightarrow> r = 0 | NegZero \<Rightarrow> True | _ \<Rightarrow> False)"

definition is_inf :: "double \<Rightarrow> bool" where
  "is_inf d = (case d of PosInf \<Rightarrow> True | NegInf \<Rightarrow> True | _ \<Rightarrow> False)"

definition real_of_double :: "double \<Rightarrow> real" where
  "real_of_double d = (case d of Finite r \<Rightarrow> r | _ \<Rightarrow> 0)"

definition double_value :: "double \<Rightarrow> real option" where
  "double_value d = (case d of Finite r \<Rightarrow> Some r | NegZero \<Rightarrow> Some 0 | _ \<Rightarrow> None)"

definition signed_inf :: "bool \<Rightarrow> double" where
  "signed_inf neg = (if neg then NegInf else PosInf)"

definition signed_zero :: "bool \<Rightarrow> double" where
  "signed_zero neg = (if neg then NegZero else Finite 0)"

definition dneg :: "double \<Rightarrow> double" where
  "dneg d =
     (case d of
        Finite r \<Rightarrow> (if r = 0 then NegZero else Finite (- r))
      | NegZero \<Rightarrow> Finite 0
      | PosInf \<Rightarrow> NegInf
      | NegInf \<Rightarrow> PosInf
      | NaN \<Rightarrow> NaN)"

text \<open>
  Addition: a NaN operand or the sum of opposite infinities is a NaN; an exact zero sum
  is negative only when both operands are negative (zeros).
\<close>

definition dadd :: "double \<Rightarrow> double \<Rightarrow> double" where
  "dadd a b =
     (if a = NaN \<or> b = NaN then NaN
      else if is_inf a then (if is_inf b \<and> b \<noteq> a then NaN else a)
      else if is_inf b then b
      else round_to_double (sign_neg a \<and> sign_neg b) (real_of_double a + real_of_double b))"

definition dsub :: "double \<Rightarrow> double \<Rightarrow> double" where
  "dsub a b = dadd a (dneg b)"

definition dmul :: "double \<Rightarrow> double \<Rightarrow> double" where
  "dmul a b =
     (if a = NaN \<or> b = NaN then NaN
      else if (is_inf a \<and> is_zero b) \<or> (is_zero a \<and> is_inf b) then NaN
      else if is_inf a \<or> is_inf b then signed_inf (sign_neg a \<noteq> sign_neg b)
      else round_to_double (sign_neg a \<noteq> sign_neg b) (real_of_double a * real_of_double b))"

definition ddiv :: "double \<Rightarrow> double \<Rightarrow> double" where
  "ddiv a b =
     (if a = NaN \<or> b = NaN then NaN
      else if (is_inf a \<and> is_inf b) \<or> (is_zero a \<and> is_zero b) then NaN
      else if is_inf a then signed_inf (sign_neg a \<noteq> sign_neg b)
      else if is_inf b then signed_zero (sign_neg a \<noteq> sign_neg b)
      else if is_zero b then signed_inf (sign_neg a \<noteq> sign_neg b)
      else round_to_double (sign_neg a \<noteq> sign_neg b) (real_of_double a / real_of_double b))"

text \<open>\<^verbatim>\<open>TMath::Ceil\<close>, the \<^verbatim>\<open>ceil\<close> of the C library: exact, and it keeps the sign of a zero.\<close>

definition dceil :: "double \<Rightarrow> double" where
  "dceil d =
     (case d of
        Finite r \<Rightarrow> (if r < 0 \<and> \<lceil>r\<rceil> = 0 then NegZero else Finite (real_of_int \<lceil>r\<rceil>))
      | NegZero \<Rightarrow> NegZero
      | PosInf \<Rightarrow> PosInf
      | NegInf \<Rightarrow> NegInf
      | NaN \<Rightarrow> NaN)"

text \<open>Conversions between the C++ number types; those to \<^verbatim>\<open>double\<close> are exact.\<close>

definition uint_to_double :: "UInt_t \<Rightarrow> double" where
  "uint_to_double u = Finite (real (unat u))"

definition int_to_double :: "Int_t \<Rightarrow> double" where
  "int_to_double i = Finite (real_of_int (sint i))"

definition int_to_uint :: "Int_t \<Rightarrow> UInt_t" where
  "int_to_uint i = word_of_int (sint i)"

definition double_to_int :: "double \<Rightarrow> int option" where
  "double_to_int d =
     (case d of
        Finite r \<Rightarrow>
          (let t = (if 0 \<le> r then \<lfloor>r\<rfloor> else \<lceil>r\<rceil>)
           in if - (2 ^ 31) \<le> t \<and> t < 2 ^ 31 then Some t else None)
      | NegZero \<Rightarrow> Some 0
      | _ \<Rightarrow> None)"

section \<open>HDTV display core: Painter geometry\<close>

text \<open>
  Shallow embedding of the inline members of \<^verbatim>\<open>HDTV::Display::Painter\<close>
  (src/display/Painter.h). The handles \<^verbatim>\<open>Drawable_t\<close> and \<^verbatim>\<open>GContext_t\<close> are natural
  numbers; the font members \<^verbatim>\<open>fFont\<close> and \<^verbatim>\<open>fFontStruct\<close> are used by no inline member
  and are left out.
\<close>

datatype ViewMode = kVMSolid | kVMHollow | kVMDotted

record Painter =
  fXZoom :: double
  fYZoom :: double
  fXVisibleRegion :: double
  fYVisibleRegion :: double
  fXOffset :: double
  fYOffset :: double
  fLogScale :: bool
  fXBase :: UInt_t
  fYBase :: UInt_t
  fWidth :: UInt_t
  fHeight :: UInt_t
  fViewMode :: ViewMode
  fDrawable :: nat
  fAxisGC :: nat
  fClearGC :: nat

text \<open>
  \<^verbatim>\<open>inline Bool_t IsWithin(UInt_t x, UInt_t y) {
    return (x >= fXBase && x <= fXBase + fWidth && y >= fYBase - fHeight && y <= fYBase); }\<close>
\<close>

definition IsWithin :: "Painter \<Rightarrow> UInt_t \<Rightarrow> UInt_t \<Rightarrow> bool" where
  "IsWithin p x y =
     (fXBase p \<le> x \<and> x \<le> fXBase p + fWidth p \<and> fYBase p - fHeight p \<le> y \<and> y \<le> fYBase p)"

subsection \<open>Coordinate transforms\<close>

text \<open>
  \<^verbatim>\<open>inline double XtoE(UInt_t x) { return (double) (x - fXBase) / fXZoom + fXOffset; }\<close>
  The subtraction is on \<^verbatim>\<open>UInt_t\<close> operands, so it wraps before the cast.
\<close>

definition XtoE :: "Painter \<Rightarrow> UInt_t \<Rightarrow> double" where
  "XtoE p x = dadd (ddiv (uint_to_double (x - fXBase p)) (fXZoom p)) (fXOffset p)"

text \<open>
  \<^verbatim>\<open>inline double XtoE(double x) { return (x - (double) fXBase) / fXZoom + fXOffset; }\<close>
  (the overload on \<^verbatim>\<open>double\<close>).
\<close>

definition XtoE_double :: "Painter \<Rightarrow> double \<Rightarrow> double" where
  "XtoE_double p x = dadd (ddiv (dsub x (uint_to_double (fXBase p))) (fXZoom p)) (fXOffset p)"

text \<open>
  \<^verbatim>\<open>inline int EtoX(double e)
    { return (int) TMath::Ceil(((e - fXOffset) * fXZoom) + fXBase - 0.5); }\<close>
\<close>

definition EtoX :: "Painter \<Rightarrow> double \<Rightarrow> int option" where
  "EtoX p e =
     double_to_int
       (dceil
          (dsub (dadd (dmul (dsub e (fXOffset p)) (fXZoom p)) (uint_to_double (fXBase p)))
             (Finite (1 / 2))))"

text \<open>
  \<^verbatim>\<open>inline double dXtodE(int dX) { return ((double) dX / fXZoom); }\<close> and
  \<^verbatim>\<open>inline double dEtodX(double dE) { return dE * fXZoom; }\<close>
\<close>

definition dXtodE :: "Painter \<Rightarrow> Int_t \<Rightarrow> double" where
  "dXtodE p dX = ddiv (int_to_double dX) (fXZoom p)"

definition dEtodX :: "Painter \<Rightarrow> double \<Rightarrow> double" where
  "dEtodX p dE = dmul dE (fXZoom p)"

text \<open>
  The transforms as the specification words them,
  \<open>xToEnergy(x) = (x - xBase) / xZoom + xOffset\<close> and
  \<open>energyToX(e) = ceil((e - xOffset) * xZoom + xBase - 0.5)\<close>, in double precision.
\<close>

definition spec_xToEnergy :: "double \<Rightarrow> double \<Rightarrow> double \<Rightarrow> double \<Rightarrow> double" where
  "spec_xToEnergy xBase xZoom xOffset x = dadd (ddiv (dsub x xBase) xZoom) xOffset"

definition spec_energyToX :: "double \<Rightarrow> double \<Rightarrow> double \<Rightarrow> double \<Rightarrow> double" where
  "spec_energyToX xBase xZoom xOffset e =
     dceil (dsub (dadd (dmul (dsub e xOffset) xZoom) xBase) (Finite (1 / 2)))"

subsection \<open>The y zoom\<close>

text \<open>
  Modelled from the spec: the body of \<^verbatim>\<open>Painter::ModLog\<close> (Painter.cxx) is not part of
  the sources. The specification describes it as a modified logarithm that behaves like
  \<open>sign(x) * log(1 + |x|)\<close>; this is that formula on the real numbers. On doubles the
  function is a parameter \<open>ml\<close> of everything that calls it.
\<close>

definition ModLog :: "real \<Rightarrow> real" where
  "ModLog x = sgn x * ln (1 + \<bar>x\<bar>)"

text \<open>
  Modelled from the spec: the extent of the visible count range, from \<open>yOffset\<close> to
  \<open>yOffset + yVisibleRegion\<close>, on the scale in use (part of the missing
  \<^verbatim>\<open>UpdateYZoom\<close>): counts themselves on the linear scale, their modified logarithms on
  the logarithmic one.
\<close>

definition visible_range ::
  "(double \<Rightarrow> double) \<Rightarrow> bool \<Rightarrow> double \<Rightarrow> double \<Rightarrow> double" where
  "visible_range ml logScale yOffset yVisibleRegion =
     (if logScale then dsub (ml (dadd yOffset yVisibleRegion)) (ml yOffset)
      else yVisibleRegion)"

definition yRange :: "(double \<Rightarrow> double) \<Rightarrow> Painter \<Rightarrow> double" where
  "yRange ml p = visible_range ml (fLogScale p) (fYOffset p) (fYVisibleRegion p)"

text \<open>
  Modelled from the spec: the body of \<^verbatim>\<open>Painter::UpdateYZoom\<close> (Painter.cxx) is not part
  of the sources. The specification has it recompute \<open>yZoom\<close> from \<open>yVisibleRegion\<close>,
  \<open>yOffset\<close>, \<open>logScale\<close> and \<open>height\<close> so that the visible count range maps exactly to the
  pixel height under the current scale mode; \<open>yZoom\<close> is in pixels per count.
\<close>

definition UpdateYZoom :: "(double \<Rightarrow> double) \<Rightarrow> Painter \<Rightarrow> Painter" where
  "UpdateYZoom ml p = p\<lparr>fYZoom := ddiv (uint_to_double (fHeight p)) (yRange ml p)\<rparr>"

subsection \<open>Setters\<close>

text \<open>
  \<^verbatim>\<open>inline void SetXVisibleRegion(double xv)
    { fXVisibleRegion = xv; fXZoom = fWidth / fXVisibleRegion; }\<close>
\<close>

definition SetXVisibleRegion :: "double \<Rightarrow> Painter \<Rightarrow> Painter" where
  "SetXVisibleRegion xv p =
     (let p1 = p\<lparr>fXVisibleRegion := xv\<rparr>
      in p1\<lparr>fXZoom := ddiv (uint_to_double (fWidth p1)) (fXVisibleRegion p1)\<rparr>)"

text \<open>\<^verbatim>\<open>inline void SetYVisibleRegion(double yv) { fYVisibleRegion = yv; UpdateYZoom(); }\<close>\<close>

definition SetYVisibleRegion :: "(double \<Rightarrow> double) \<Rightarrow> double \<Rightarrow> Painter \<Rightarrow> Painter" where
  "SetYVisibleRegion ml yv p = UpdateYZoom ml (p\<lparr>fYVisibleRegion := yv\<rparr>)"

text \<open>\<^verbatim>\<open>inline void SetLogScale(Bool_t l) { fLogScale = l; UpdateYZoom(); }\<close>\<close>

definition SetLogScale :: "(double \<Rightarrow> double) \<Rightarrow> bool \<Rightarrow> Painter \<Rightarrow> Painter" where
  "SetLogScale ml l p = UpdateYZoom ml (p\<lparr>fLogScale := l\<rparr>)"

text \<open>\<^verbatim>\<open>inline void SetViewMode(ViewMode vm) { fViewMode = vm; }\<close>\<close>

definition SetViewMode :: "ViewMode \<Rightarrow> Painter \<Rightarrow> Painter" where
  "SetViewMode vm p = p\<lparr>fViewMode := vm\<rparr>"

text \<open>\<^verbatim>\<open>inline void SetBasePoint(int x, int y) { fXBase = x; fYBase = y; }\<close>\<close>

definition SetBasePoint :: "Int_t \<Rightarrow> Int_t \<Rightarrow> Painter \<Rightarrow> Painter" where
  "SetBasePoint x y p = p\<lparr>fXBase := int_to_uint x, fYBase := int_to_uint y\<rparr>"

text \<open>
  \<^verbatim>\<open>inline void SetDrawable(Drawable_t drawable) { fDrawable = drawable; }
  inline void SetAxisGC(GContext_t gc) { fAxisGC = gc; }
  inline void SetClearGC(GContext_t gc) { fClearGC = gc; }\<close>
\<close>

definition SetDrawable :: "nat \<Rightarrow> Painter \<Rightarrow> Painter" where
  "SetDrawable drawable p = p\<lparr>fDrawable := drawable\<rparr>"

definition SetAxisGC :: "nat \<Rightarrow> Painter \<Rightarrow> Painter" where
  "SetAxisGC gc p = p\<lparr>fAxisGC := gc\<rparr>"

definition SetClearGC :: "nat \<Rightarrow> Painter \<Rightarrow> Painter" where
  "SetClearGC gc p = p\<lparr>fClearGC := gc\<rparr>"

text \<open>
  \<^verbatim>\<open>inline void SetXOffset(double offset) { fXOffset = offset; }
  inline void SetYOffset(double offset) { fYOffset = offset; UpdateYZoom(); }\<close>
\<close>

definition SetXOffset :: "double \<Rightarrow> Painter \<Rightarrow> Painter" where
  "SetXOffset offset p = p\<lparr>fXOffset := offset\<rparr>"

definition SetYOffset :: "(double \<Rightarrow> double) \<Rightarrow> double \<Rightarrow> Painter \<Rightarrow> Painter" where
  "SetYOffset ml offset p = UpdateYZoom ml (p\<lparr>fYOffset := offset\<rparr>)"

text \<open>
  Modelled from the spec: the body of \<^verbatim>\<open>void Painter::SetSize(int w, int h)\<close>
  (Painter.cxx) is not part of the sources. By the specification it sets the drawable size,
  \<open>xZoom = width / xVisibleRegion\<close> holds always, and \<open>yZoom\<close> is recomputed whenever the
  height changes.
\<close>

definition SetSize :: "(double \<Rightarrow> double) \<Rightarrow> Int_t \<Rightarrow> Int_t \<Rightarrow> Painter \<Rightarrow> Painter" where
  "SetSize ml w h p =
     (let p1 = p\<lparr>fWidth := int_to_uint w, fHeight := int_to_uint h\<rparr>;
          p2 = p1\<lparr>fXZoom := ddiv (uint_to_double (fWidth p1)) (fXVisibleRegion p1)\<rparr>
      in UpdateYZoom ml p2)"

text \<open>The state-changing public operations of the class, and a run of them.\<close>

datatype PainterOp =
    OpSetXVisibleRegion double
  | OpSetYVisibleRegion double
  | OpSetLogScale bool
  | OpSetViewMode ViewMode
  | OpSetBasePoint Int_t Int_t
  | OpSetSize Int_t Int_t
  | OpSetDrawable nat
  | OpSetAxisGC nat
  | OpSetClearGC nat
  | OpSetXOffset double
  | OpSetYOffset double

fun apply_op :: "(double \<Rightarrow> double) \<Rightarrow> PainterOp \<Rightarrow> Painter \<Rightarrow> Painter" where
  "apply_op ml (OpSetXVisibleRegion xv) p = SetXVisibleRegion xv p"
| "apply_op ml (OpSetYVisibleRegion yv) p = SetYVisibleRegion ml yv p"
| "apply_op ml (OpSetLogScale l) p = SetLogScale ml l p"
| "apply_op ml (OpSetViewMode vm) p = SetViewMode vm p"
| "apply_op ml (OpSetBasePoint x y) p = SetBasePoint x y p"
| "apply_op ml (OpSetSize w h) p = SetSize ml w h p"
| "apply_op ml (OpSetDrawable d) p = SetDrawable d p"
| "apply_op ml (OpSetAxisGC gc) p = SetAxisGC gc p"
| "apply_op ml (OpSetClearGC gc) p = SetClearGC gc p"
| "apply_op ml (OpSetXOffset off) p = SetXOffset off p"
| "apply_op ml (OpSetYOffset off) p = SetYOffset ml off p"

fun run_ops :: "(double \<Rightarrow> double) \<Rightarrow> PainterOp list \<Rightarrow> Painter \<Rightarrow> Painter" where
  "run_ops ml [] p = p"
| "run_ops ml (x # xs) p = run_ops ml xs (apply_op ml x p)"

definition xzoom_inv :: "Painter \<Rightarrow> bool" where
  "xzoom_inv p = (fXZoom p = ddiv (uint_to_double (fWidth p)) (fXVisibleRegion p))"

definition sets_width_or_xregion :: "PainterOp \<Rightarrow> bool" where
  "sets_width_or_xregion x =
     (case x of OpSetXVisibleRegion _ \<Rightarrow> True | OpSetSize _ _ \<Rightarrow> True | _ \<Rightarrow> False)"

text \<open>A painter with every member zero, to build concrete states from.\<close>

definition painter0 :: Painter where
  "painter0 =
     \<lparr>fXZoom = Finite 0, fYZoom = Finite 0, fXVisibleRegion = Finite 0,
      fYVisibleRegion = Finite 0, fXOffset = Finite 0, fYOffset = Finite 0,
      fLogScale = False, fXBase = 0, fYBase = 0, fWidth = 0, fHeight = 0,
      fViewMode = kVMSolid, fDrawable = 0, fAxisGC = 0, fClearGC = 0\<rparr>"

section \<open>GSViewport: collections of display objects and view state\<close>

text \<open>
  src/gspec/GSViewport.h declares the class; the member functions are defined in
  GSViewport.cxx, which is not part of the sources, so the operations below follow the
  specification. Each collection is a \<^verbatim>\<open>std::vector\<close> of pointers addressed by id; a
  vacated slot holds a null pointer (\<open>None\<close>). A display object is represented by what
  its \<^verbatim>\<open>Add*\<close> call is given: a handle of the histogram or function, or a marker
  position, and a color.

  The members \<^verbatim>\<open>fXVisibleRegion\<close>, \<^verbatim>\<open>fYVisibleRegion\<close>, \<^verbatim>\<open>fXOffset\<close> and \<^verbatim>\<open>fYOffset\<close>
  of the viewport are the fields \<open>gsXVisibleRegion\<close>, \<open>gsYVisibleRegion\<close>, \<open>gsXOffset\<close> and
  \<open>gsYOffset\<close>: the painter's record already has fields of those names. The cursor, drag,
  border and widget members take no part in the operations modelled and are left out;
  \<open>fRedraws\<close> is not a member of the class: it counts the redraws done so far. The
  member \<^verbatim>\<open>fPainter\<close> points to a \<^verbatim>\<open>GSPainter\<close>, a class that is not part of the sources;
  the field holds a \<open>Painter\<close> in its place, and no operation below reads or writes it.
\<close>

record GSDisplayObj =
  obj_data :: nat
  obj_color :: int

record GSMarker =
  marker_pos :: double
  marker_color :: int

record GSViewport =
  gsXVisibleRegion :: double
  gsYVisibleRegion :: double
  fYMinVisibleRegion :: double
  gsXOffset :: double
  gsYOffset :: double
  fSpectra :: "GSDisplayObj option list"
  fFunctions :: "GSDisplayObj option list"
  fXMarkers :: "GSMarker option list"
  fYMarkers :: "GSMarker option list"
  fYAutoScale :: bool
  fPainter :: Painter
  fRedraws :: nat

text \<open>
  Modelled from the spec: the scan behind the first-fit allocation (part of the missing
  \<^verbatim>\<open>FindFreeId\<close>); it yields the index of the first vacated slot, or the length when
  every slot is taken.
\<close>

fun first_vacant :: "'a option list \<Rightarrow> nat" where
  "first_vacant [] = 0"
| "first_vacant (None # xs) = 0"
| "first_vacant (Some x # xs) = Suc (first_vacant xs)"

text \<open>
  Modelled from the spec: \<^verbatim>\<open>template <class itemType> int FindFreeId(std::vector<itemType>
  &items)\<close> is declared in GSViewport.h and defined in the missing GSViewport.cxx. Ids are
  reused first-fit over vacated slots: the lowest free id is the first vacated slot, and a
  new slot at the end when there is none.
\<close>

definition FindFreeId :: "'a option list \<Rightarrow> int \<times> 'a option list" where
  "FindFreeId items =
     (let i = first_vacant items
      in if i < length items then (int i, items) else (int i, items @ [None]))"

text \<open>
  Modelled from the spec: an \<^verbatim>\<open>Add*\<close> call assigns the lowest free id to the new
  object and returns it.
\<close>

definition AddItem :: "'a option list \<Rightarrow> 'a \<Rightarrow> int \<times> 'a option list" where
  "AddItem items x = (case FindFreeId items of (i, items') \<Rightarrow> (i, items'[nat i := Some x]))"

text \<open>
  Modelled from the spec: \<^verbatim>\<open>template <class itemType> void DeleteItem(std::vector<itemType>
  &items, int id)\<close> (body missing) removes the object and frees its id. An id that addresses
  no slot leaves the collection as it is.
\<close>

definition DeleteItem :: "'a option list \<Rightarrow> int \<Rightarrow> 'a option list" where
  "DeleteItem items i =
     (if 0 \<le> i \<and> i < int (length items) then items[nat i := None] else items)"

text \<open>
  Modelled from the spec: a lookup by id that misses returns the sentinel "not found"
  (\<open>None\<close>).
\<close>

definition GetItem :: "'a option list \<Rightarrow> int \<Rightarrow> 'a option" where
  "GetItem items i = (if 0 \<le> i \<and> i < int (length items) then items ! nat i else None)"

text \<open>
  Modelled from the spec: \<^verbatim>\<open>void Update(bool redraw)\<close>; a redraw is recorded by
  counting it, and an operation called with \<open>update\<close> set redraws before it returns.
\<close>

definition Update :: "bool \<Rightarrow> GSViewport \<Rightarrow> GSViewport" where
  "Update redraw v = (if redraw then v\<lparr>fRedraws := Suc (fRedraws v)\<rparr> else v)"

text \<open>
  Modelled from the spec: the object management functions for spectra declared in
  GSViewport.h, \<^verbatim>\<open>int AddSpec(const TH1D *spec, int color, bool update)\<close>,
  \<^verbatim>\<open>GSDisplaySpec *GetDisplaySpec(int id)\<close>, \<^verbatim>\<open>void DeleteSpec(int id, bool update)\<close> and
  \<^verbatim>\<open>void DeleteAllSpecs(bool update)\<close> (bodies missing). An \<^verbatim>\<open>Add*\<close> assigns the lowest
  free id of its collection, a \<^verbatim>\<open>Delete*\<close> frees the id, a \<^verbatim>\<open>DeleteAll*\<close> clears the
  collection in one step; each redraws when \<open>update\<close> is set.
\<close>

definition AddSpec :: "nat \<Rightarrow> int \<Rightarrow> bool \<Rightarrow> GSViewport \<Rightarrow> int \<times> GSViewport" where
  "AddSpec spec color update v =
     (case AddItem (fSpectra v) \<lparr>obj_data = spec, obj_color = color\<rparr> of
        (i, items) \<Rightarrow> (i, Update update (v\<lparr>fSpectra := items\<rparr>)))"

definition GetDisplaySpec :: "GSViewport \<Rightarrow> int \<Rightarrow> GSDisplayObj option" where
  "GetDisplaySpec v i = GetItem (fSpectra v) i"

definition DeleteSpec :: "int \<Rightarrow> bool \<Rightarrow> GSViewport \<Rightarrow> GSViewport" where
  "DeleteSpec i update v = Update update (v\<lparr>fSpectra := DeleteItem (fSpectra v) i\<rparr>)"

definition DeleteAllSpecs :: "bool \<Rightarrow> GSViewport \<Rightarrow> GSViewport" where
  "DeleteAllSpecs update v = Update update (v\<lparr>fSpectra := []\<rparr>)"

text \<open>
  Modelled from the spec: the same functions for the collection of functions,
  \<^verbatim>\<open>int AddFunc(const TF1 *func, int color, bool update)\<close>, \<^verbatim>\<open>GetDisplayFunc\<close>,
  \<^verbatim>\<open>DeleteFunc\<close> and \<^verbatim>\<open>DeleteAllFuncs\<close> (bodies missing).
\<close>

definition AddFunc :: "nat \<Rightarrow> int \<Rightarrow> bool \<Rightarrow> GSViewport \<Rightarrow> int \<times> GSViewport" where
  "AddFunc func color update v =
     (case AddItem (fFunctions v) \<lparr>obj_data = func, obj_color = color\<rparr> of
        (i, items) \<Rightarrow> (i, Update update (v\<lparr>fFunctions := items\<rparr>)))"

definition GetDisplayFunc :: "GSViewport \<Rightarrow> int \<Rightarrow> GSDisplayObj option" where
  "GetDisplayFunc v i = GetItem (fFunctions v) i"

definition DeleteFunc :: "int \<Rightarrow> bool \<Rightarrow> GSViewport \<Rightarrow> GSViewport" where
  "DeleteFunc i update v = Update update (v\<lparr>fFunctions := DeleteItem (fFunctions v) i\<rparr>)"

definition DeleteAllFuncs :: "bool \<Rightarrow> GSViewport \<Rightarrow> GSViewport" where
  "DeleteAllFuncs update v = Update update (v\<lparr>fFunctions := []\<rparr>)"

text \<open>
  Modelled from the spec: the same functions for the x markers,
  \<^verbatim>\<open>int AddXMarker(double pos, int color, bool update)\<close>, \<^verbatim>\<open>GetXMarker\<close>,
  \<^verbatim>\<open>DeleteXMarker\<close> and \<^verbatim>\<open>DeleteAllXMarkers\<close> (bodies missing).
\<close>

definition AddXMarker :: "double \<Rightarrow> int \<Rightarrow> bool \<Rightarrow> GSViewport \<Rightarrow> int \<times> GSViewport" where
  "AddXMarker pos color update v =
     (case AddItem (fXMarkers v) \<lparr>marker_pos = pos, marker_color = color\<rparr> of
        (i, items) \<Rightarrow> (i, Update update (v\<lparr>fXMarkers := items\<rparr>)))"

definition GetXMarker :: "GSViewport \<Rightarrow> int \<Rightarrow> GSMarker option" where
  "GetXMarker v i = GetItem (fXMarkers v) i"

definition DeleteXMarker :: "int \<Rightarrow> bool \<Rightarrow> GSViewport \<Rightarrow> GSViewport" where
  "DeleteXMarker i update v = Update update (v\<lparr>fXMarkers := DeleteItem (fXMarkers v) i\<rparr>)"

definition DeleteAllXMarkers :: "bool \<Rightarrow> GSViewport \<Rightarrow> GSViewport" where
  "DeleteAllXMarkers update v = Update update (v\<lparr>fXMarkers := []\<rparr>)"

text \<open>
  Modelled from the spec: the same functions for the y markers,
  \<^verbatim>\<open>int AddYMarker(double pos, int color, bool update)\<close>, \<^verbatim>\<open>GetYMarker\<close>,
  \<^verbatim>\<open>DeleteYMarker\<close> and \<^verbatim>\<open>DeleteAllYMarkers\<close> (bodies missing).
\<close>

definition AddYMarker :: "double \<Rightarrow> int \<Rightarrow> bool \<Rightarrow> GSViewport \<Rightarrow> int \<times> GSViewport" where
  "AddYMarker pos color update v =
     (case AddItem (fYMarkers v) \<lparr>marker_pos = pos, marker_color = color\<rparr> of
        (i, items) \<Rightarrow> (i, Update update (v\<lparr>fYMarkers := items\<rparr>)))"

definition GetYMarker :: "GSViewport \<Rightarrow> int \<Rightarrow> GSMarker option" where
  "GetYMarker v i = GetItem (fYMarkers v) i"

definition DeleteYMarker :: "int \<Rightarrow> bool \<Rightarrow> GSViewport \<Rightarrow> GSViewport" where
  "DeleteYMarker i update v = Update update (v\<lparr>fYMarkers := DeleteItem (fYMarkers v) i\<rparr>)"

definition DeleteAllYMarkers :: "bool \<Rightarrow> GSViewport \<Rightarrow> GSViewport" where
  "DeleteAllYMarkers update v = Update update (v\<lparr>fYMarkers := []\<rparr>)"

text \<open>A viewport with empty collections, to build concrete states from.\<close>

definition viewport0 :: GSViewport where
  "viewport0 =
     \<lparr>gsXVisibleRegion = Finite 1, gsYVisibleRegion = Finite 1,
      fYMinVisibleRegion = Finite 1, gsXOffset = Finite 0, gsYOffset = Finite 0, fSpectra = [], fFunctions = [], fXMarkers = [], fYMarkers = [],
      fYAutoScale = False, fPainter = painter0, fRedraws = 0\<rparr>"

section \<open>Viewer: the window shell\<close>

text \<open>
  src/display/Viewer.cxx. The toolkit's message macros and constants (\<^verbatim>\<open>GET_MSG\<close>,
  \<^verbatim>\<open>GET_SUBMSG\<close>, \<^verbatim>\<open>kC_HSCROLL\<close>, \<^verbatim>\<open>kSB_SLIDERTRACK\<close>, \<^verbatim>\<open>kGKeyPress\<close>) come from headers
  outside the sources and are parameters of the model. Calls that leave the viewer
  (to the view, to the toolkit, to the key signal) are recorded in order.
\<close>

record Toolkit =
  GET_MSG :: "int \<Rightarrow> int"
  GET_SUBMSG :: "int \<Rightarrow> int"
  kC_HSCROLL :: int
  kSB_SLIDERTRACK :: int
  kGKeyPress :: int

record Event_t =
  fType :: int
  fCode :: int
  fState :: int

datatype ViewerCall =
    HandleScrollbar int
  | LookupString Event_t
  | KeyPressed

record Viewer =
  calls :: "ViewerCall list"

text \<open>
  \<^verbatim>\<open>Bool_t Viewer::HandleKey(Event_t *ev)
  {
    if(ev->fType == kGKeyPress) {
      gVirtualX->LookupString(ev, fKeyStr, 16, fKeySym);
      KeyPressed();
    }
    return true;
  }\<close>
\<close>

definition HandleKey :: "Toolkit \<Rightarrow> Event_t \<Rightarrow> Viewer \<Rightarrow> bool \<times> Viewer" where
  "HandleKey tk ev v =
     (let v1 = (if fType ev = kGKeyPress tk
                then v\<lparr>calls := calls v @ [LookupString ev, KeyPressed]\<rparr>
                else v)
      in (True, v1))"

text \<open>
  What a call of a member function amounts to: it returns, or the C++ standard gives the
  call no defined behaviour at all.
\<close>

datatype 'a behaviour = Returns 'a | UndefinedBehaviour

text \<open>
  Control that reaches the closing brace of a function declared to return a value,
  without a \<^verbatim>\<open>return\<close> statement: the behaviour of the call is undefined, whatever state
  the body had reached.
\<close>

definition flows_off_the_end :: "Viewer \<Rightarrow> (bool \<times> Viewer) behaviour" where
  "flows_off_the_end v = UndefinedBehaviour"

text \<open>
  \<^verbatim>\<open>Bool_t Viewer::ProcessMessage(Long_t msg, Long_t parm1, Long_t)
  {
    if(GET_MSG(msg) == kC_HSCROLL) {
      if(GET_SUBMSG(msg) == kSB_SLIDERTRACK)
        fView->HandleScrollbar(parm1);
    }
  }\<close>
  The function is declared to return \<^verbatim>\<open>Bool_t\<close> and has no \<^verbatim>\<open>return\<close> statement: every
  path through the body flows off the end.
\<close>

definition ProcessMessage ::
  "Toolkit \<Rightarrow> int \<Rightarrow> int \<Rightarrow> int \<Rightarrow> Viewer \<Rightarrow> (bool \<times> Viewer) behaviour" where
  "ProcessMessage tk msg parm1 parm2 v =
     (let v1 = (if GET_MSG tk msg = kC_HSCROLL tk
                then (if GET_SUBMSG tk msg = kSB_SLIDERTRACK tk
                      then v\<lparr>calls := calls v @ [HandleScrollbar parm1]\<rparr>
                      else v)
                else v)
      in flows_off_the_end v1)"

text \<open>The calls an operation added to the record.\<close>

definition emitted :: "Viewer \<Rightarrow> Viewer \<Rightarrow> ViewerCall list" where
  "emitted v v' = drop (length (calls v)) (calls v')"

section \<open>Properties\<close>

subsection \<open>The double arithmetic\<close>

text \<open>
  The definitions above are evaluated on concrete numbers by unfolding them; the two
  collections below are the equations that takes.
\<close>

lemmas rounding =
  ilog2_def round_even_def scale2_def round_finite_def round_to_double_def Let_def
  compute_bitlen

lemmas arith =
  dadd_def dsub_def dmul_def ddiv_def dneg_def dceil_def is_inf_def is_zero_def
  sign_neg_def real_of_double_def signed_inf_def signed_zero_def uint_to_double_def
  int_to_double_def int_to_uint_def double_to_int_def double_value_def

text \<open>
  \<open>round_even\<close> returns a nearest integer, and \<open>ilog2\<close> is the floor of the binary
  logarithm, so \<open>round_finite\<close> rounds at the spacing of the binade of its argument.
\<close>

lemma round_even_nearest: "\<bar>real_of_int (round_even y) - y\<bar> \<le> 1 / 2"
  unfolding round_even_def Let_def by (simp; linarith)

lemma bitlen_pos: "0 < n \<Longrightarrow> 1 \<le> bitlen n"
  using bitlen_eq_zero_iff [of n] bitlen_nonneg [of n] by linarith

lemma two_powr_nat: "(2::real) powr real (m::nat) = 2 ^ m"
  using powr_realpow [of "2::real" m] by simp

lemma two_powr_neg_nat: "(2::real) powr (- real (m::nat)) = 1 / 2 ^ m"
  by (simp add: powr_minus two_powr_nat divide_inverse)

lemma bracket_ge_1:
  fixes x :: real
  assumes "1 \<le> x"
  obtains m where "int m = bitlen \<lfloor>x\<rfloor> - 1" and "2 ^ m \<le> x" and "x < 2 ^ Suc m"
proof -
  let ?n = "\<lfloor>x\<rfloor>"
  define m where "m = nat (bitlen ?n - 1)"
  from assms have n: "0 < ?n" by simp
  have m: "int m = bitlen ?n - 1"
    using bitlen_pos [OF n] by (simp add: m_def)
  then have bl: "nat (bitlen ?n) = Suc m" by simp
  from bitlen_bounds [OF n] have lo: "2 ^ m \<le> ?n" and hi: "?n < 2 ^ Suc m"
    by (simp_all only: m_def [symmetric] bl)
  have "real_of_int (2 ^ m) \<le> real_of_int ?n"
    using lo by (simp only: of_int_le_iff)
  then have "(2::real) ^ m \<le> real_of_int ?n" by simp
  moreover have "real_of_int ?n \<le> x" by (rule of_int_floor_le)
  ultimately have a: "2 ^ m \<le> x" by (rule order_trans)
  from hi have "?n + 1 \<le> 2 ^ Suc m" by simp
  then have "real_of_int (?n + 1) \<le> real_of_int (2 ^ Suc m)"
    by (simp only: of_int_le_iff)
  then have "real_of_int (?n + 1) \<le> (2::real) ^ Suc m" by simp
  moreover have "x < real_of_int (?n + 1)" by linarith
  ultimately have b: "x < 2 ^ Suc m" by linarith
  from m a b show ?thesis by (rule that)
qed

lemma ilog2_floor_log:
  assumes "0 < x"
  shows "ilog2 x = \<lfloor>log 2 x\<rfloor>"
proof (cases "1 \<le> x")
  case True
  from bracket_ge_1 [OF True] obtain m
    where m: "int m = bitlen \<lfloor>x\<rfloor> - 1" and lo: "2 ^ m \<le> x" and hi: "x < 2 ^ Suc m"
    by blast
  have "2 powr real_of_int (int m) \<le> x \<and> x < 2 powr (real_of_int (int m) + 1)"
    using lo hi by (simp add: two_powr_nat powr_add)
  then have "\<lfloor>log 2 x\<rfloor> = int m"
    using assms by (simp only: floor_log_eq_powr_iff [of x 2] simp_thms) simp
  with True m show ?thesis by (simp add: ilog2_def)
next
  case False
  with assms have y: "1 \<le> 1 / x" by simp
  from bracket_ge_1 [OF y] obtain m
    where m: "int m = bitlen \<lfloor>1 / x\<rfloor> - 1" and lo: "2 ^ m \<le> 1 / x" and hi: "1 / x < 2 ^ Suc m"
    by blast
  from m have natm: "nat (bitlen \<lfloor>1 / x\<rfloor> - 1) = m" by simp
  from lo assms have xle: "x * 2 ^ m \<le> 1"
    by (simp add: field_simps)
  from hi assms have xgt: "1 / 2 ^ Suc m < x"
    by (simp add: field_simps)
  show ?thesis
  proof (cases "x * 2 ^ m = 1")
    case True
    then have "x = 1 / 2 ^ m" by (simp add: field_simps)
    then have "x = 2 powr (- real m)" by (simp only: two_powr_neg_nat)
    then have "log 2 x = real_of_int (- int m)" by simp
    then have "\<lfloor>log 2 x\<rfloor> = - int m" by (simp only: floor_of_int)
    with True False m natm show ?thesis by (simp add: ilog2_def Let_def)
  next
    case neq: False
    with xle have "x * 2 ^ m < 1" by simp
    then have xlt: "x < 1 / 2 ^ m" by (simp add: field_simps)
    have "2 powr (- real (Suc m)) \<le> x"
      using xgt by (simp only: two_powr_neg_nat)
    moreover have "x < 2 powr (- real m)"
      using xlt by (simp only: two_powr_neg_nat)
    moreover have "- real (Suc m) = real_of_int (- int m - 1)" by simp
    moreover have "- real m = real_of_int (- int m - 1) + 1" by simp
    ultimately have "2 powr real_of_int (- int m - 1) \<le> x \<and>
        x < 2 powr (real_of_int (- int m - 1) + 1)"
      by (simp only:)
    then have "\<lfloor>log 2 x\<rfloor> = - int m - 1"
      using assms by (simp only: floor_log_eq_powr_iff [of x 2] simp_thms) simp
    with neq False m natm show ?thesis by (simp add: ilog2_def Let_def)
  qed
qed

lemma scale2_inverse: "scale2 (scale2 x q) (- q) = x"
  by (simp add: scale2_def)

lemma round_finite_half_ulp:
  "\<bar>scale2 (round_finite r) (52 - max (ilog2 \<bar>r\<bar>) (- 1022))
      - scale2 r (52 - max (ilog2 \<bar>r\<bar>) (- 1022))\<bar> \<le> 1 / 2"
proof -
  let ?q = "max (ilog2 \<bar>r\<bar>) (- 1022) - 52"
  have "scale2 (round_finite r) (- ?q) = real_of_int (round_even (scale2 r (- ?q)))"
    by (simp only: round_finite_def Let_def scale2_inverse)
  moreover have "- ?q = 52 - max (ilog2 \<bar>r\<bar>) (- 1022)" by simp
  ultimately show ?thesis
    using round_even_nearest [of "scale2 r (- ?q)"] by simp
qed

text \<open>
  Roundings worked by the definitions: the nearest doubles of \<open>400 / 48\<close>, \<open>1 / 10\<close> and
  \<open>1 / 3\<close> (the significands \<open>0x10aaaaaaaaaaab\<close>, \<open>0x1999999999999a\<close> and
  \<open>0x15555555555555\<close>); a 32-bit integer, which is a double as it stands; and ties
  above \<open>2 ^ 53\<close>, where the doubles are the even integers, going to the neighbour with
  the even significand.
\<close>

lemma rounding_examples:
  "round_to_double False (400 / 48) = Finite (4691249611844267 / 2 ^ 49) \<and>
   round_to_double False (1 / 10) = Finite (7205759403792794 / 2 ^ 56) \<and>
   round_to_double False (1 / 3) = Finite (6004799503160661 / 2 ^ 54) \<and>
   round_to_double False 4294967291 = Finite 4294967291 \<and>
   is_double (Finite (1 / 2)) \<and>
   round_to_double False (2 ^ 53 + 1) = Finite (2 ^ 53) \<and>
   round_to_double False (2 ^ 53 + 3) = Finite (2 ^ 53 + 4) \<and>
   round_to_double False (- (2 ^ 53 + 1)) = Finite (- (2 ^ 53))"
  by (simp add: is_double_def rounding)

text \<open>
  At the ends of the range: below \<open>2 ^ -1022\<close> the spacing stays \<open>2 ^ -1074\<close>, so minus
  one half of that spacing is a tie, which goes to the even neighbour, (negative) zero;
  and a product of \<open>2 ^ 1024\<close> is an infinity.
\<close>

lemma rounding_underflows: "round_to_double False (- 1 / 2 ^ 1075) = NegZero"
  by (simp add: rounding)

lemma rounding_overflows: "dmul (Finite (2 ^ 1000)) (Finite (2 ^ 24)) = PosInf"
  by (simp add: arith rounding)

lemma dceil_to_int:
  "(double_to_int (dceil d) = Some k) =
     (double_value (dceil d) = Some (real_of_int k) \<and> - (2 ^ 31) \<le> k \<and> k < 2 ^ 31)"
proof (cases d)
  case (Finite r)
  show ?thesis
  proof (cases "r < 0 \<and> \<lceil>r\<rceil> = 0")
    case True
    with Finite show ?thesis
      by (auto simp add: dceil_def double_to_int_def double_value_def)
  next
    case False
    with Finite have c: "dceil d = Finite (real_of_int \<lceil>r\<rceil>)"
      by (auto simp add: dceil_def)
    show ?thesis
      by (auto simp add: c double_to_int_def double_value_def)
  qed
qed (auto simp add: dceil_def double_to_int_def double_value_def)

subsection \<open>Pixel and energy transforms\<close>

text \<open>
  The pixel \<open>EtoX\<close> returns follows the rounding of each double operation. With width 400
  and \<open>SetXVisibleRegion(48.0)\<close> the zoom is the double nearest to \<open>25 / 3\<close>, above it, and
  \<open>EtoX(7.5)\<close> is 63 (in exact arithmetic the product is 62.5 and the pixel 62); with the
  zoom the double nearest to \<open>0.1\<close>, \<open>EtoX(25.0)\<close> is 2; after \<open>SetXVisibleRegion(0.0)\<close> the
  zoom is infinite and the conversion to \<^verbatim>\<open>int\<close> undefined; a zero width over a negative
  region gives a negative zero zoom, and \<open>XtoE\<close> divides by it to minus infinity.
\<close>

lemma EtoX_follows_double_rounding:
  "EtoX (SetXVisibleRegion (Finite 48) (painter0\<lparr>fWidth := 400\<rparr>)) (Finite (15 / 2)) = Some 63 \<and>
   EtoX (painter0\<lparr>fXZoom := round_to_double False (1 / 10)\<rparr>) (Finite 25) = Some 2 \<and>
   fXZoom (SetXVisibleRegion (Finite 0) (painter0\<lparr>fWidth := 400\<rparr>)) = PosInf \<and>
   EtoX (SetXVisibleRegion (Finite 0) (painter0\<lparr>fWidth := 400\<rparr>)) (Finite 5) = None \<and>
   fXZoom (SetXVisibleRegion (Finite (- 5)) painter0) = NegZero \<and>
   XtoE_double (SetXVisibleRegion (Finite (- 5)) painter0) (Finite 5) = NegInf"
  by (simp add: EtoX_def XtoE_double_def SetXVisibleRegion_def painter0_def arith rounding)

text \<open>
  C1, as the claim states it, fails: \<open>EtoX(e)\<close> is an \<^verbatim>\<open>int\<close>, so it is not
  \<open>ceil((e - xOffset) * xZoom + xBase - 0.5)\<close> for every energy. With zoom 1 (width 400,
  visible region 400), offset 0 and base 0, the energy 3000000000 is a double, the
  ceiling is 3000000000, and the conversion of that number to \<^verbatim>\<open>int\<close> is undefined.
\<close>

theorem EtoX_undefined_beyond_int:
  "is_double (Finite 3000000000) \<and>
   fXZoom (SetXVisibleRegion (Finite 400) (painter0\<lparr>fWidth := 400\<rparr>)) = Finite 1 \<and>
   spec_energyToX (Finite 0) (Finite 1) (Finite 0) (Finite 3000000000) = Finite 3000000000 \<and>
   EtoX (SetXVisibleRegion (Finite 400) (painter0\<lparr>fWidth := 400\<rparr>)) (Finite 3000000000) = None"
  by (simp add: EtoX_def spec_energyToX_def is_double_def SetXVisibleRegion_def painter0_def
      arith rounding)

text \<open>
  C1, amended. In double arithmetic the transforms compute the formulas of the
  specification: for every \<open>x\<close>, the \<^verbatim>\<open>double\<close> overload of \<open>XtoE\<close> returns
  \<open>(x - xBase) / xZoom + xOffset\<close>; for every energy \<open>e\<close>, \<open>EtoX\<close> is
  \<open>ceil((e - xOffset) * xZoom + xBase - 0.5)\<close> converted to \<^verbatim>\<open>int\<close>, so it returns \<open>k\<close>
  exactly when that ceiling is the number \<open>k\<close> and \<open>k\<close> fits a 32-bit \<^verbatim>\<open>int\<close>, and is
  undefined otherwise. With width 400 and a visible region of 100 the x zoom is 4, and
  with offset 0 and base 0 pixel 40 is energy 10 and energy 10 is pixel 40.
\<close>

theorem transforms_follow_spec_formulas:
  "XtoE_double p x = spec_xToEnergy (uint_to_double (fXBase p)) (fXZoom p) (fXOffset p) x \<and>
   EtoX p e =
     double_to_int (spec_energyToX (uint_to_double (fXBase p)) (fXZoom p) (fXOffset p) e) \<and>
   (EtoX p e = Some k) =
     (double_value (spec_energyToX (uint_to_double (fXBase p)) (fXZoom p) (fXOffset p) e)
        = Some (real_of_int k) \<and>
      - (2 ^ 31) \<le> k \<and> k < 2 ^ 31) \<and>
   fXZoom (SetXVisibleRegion (Finite 100) (SetXOffset (Finite 0) (SetBasePoint 0 0 (q\<lparr>fWidth := 400\<rparr>)))) = Finite 4 \<and>
   XtoE_double (SetXVisibleRegion (Finite 100) (SetXOffset (Finite 0) (SetBasePoint 0 0 (q\<lparr>fWidth := 400\<rparr>)))) (Finite 40) = Finite 10 \<and>
   EtoX (SetXVisibleRegion (Finite 100) (SetXOffset (Finite 0) (SetBasePoint 0 0 (q\<lparr>fWidth := 400\<rparr>)))) (Finite 10) = Some 40"
proof (intro conjI)
  show "XtoE_double p x = spec_xToEnergy (uint_to_double (fXBase p)) (fXZoom p) (fXOffset p) x"
    by (simp add: XtoE_double_def spec_xToEnergy_def)
  show "EtoX p e =
     double_to_int (spec_energyToX (uint_to_double (fXBase p)) (fXZoom p) (fXOffset p) e)"
    by (simp add: EtoX_def spec_energyToX_def)
  show "(EtoX p e = Some k) =
     (double_value (spec_energyToX (uint_to_double (fXBase p)) (fXZoom p) (fXOffset p) e)
        = Some (real_of_int k) \<and>
      - (2 ^ 31) \<le> k \<and> k < 2 ^ 31)"
    unfolding EtoX_def spec_energyToX_def by (rule dceil_to_int)
  show "fXZoom (SetXVisibleRegion (Finite 100) (SetXOffset (Finite 0) (SetBasePoint 0 0 (q\<lparr>fWidth := 400\<rparr>)))) = Finite 4"
    by (simp add: SetXVisibleRegion_def SetXOffset_def SetBasePoint_def arith rounding)
  show "XtoE_double (SetXVisibleRegion (Finite 100) (SetXOffset (Finite 0) (SetBasePoint 0 0 (q\<lparr>fWidth := 400\<rparr>)))) (Finite 40) = Finite 10"
    by (simp add: XtoE_double_def SetXVisibleRegion_def SetXOffset_def SetBasePoint_def arith
        rounding)
  show "EtoX (SetXVisibleRegion (Finite 100) (SetXOffset (Finite 0) (SetBasePoint 0 0 (q\<lparr>fWidth := 400\<rparr>)))) (Finite 10) = Some 40"
    by (simp add: EtoX_def SetXVisibleRegion_def SetXOffset_def SetBasePoint_def arith
        rounding)
qed

theorem transforms_follow_spec_formulas_witness:
  "XtoE_double (painter0\<lparr>fXZoom := Finite 4\<rparr>) (Finite 40) = Finite 10 \<and>
   spec_energyToX (Finite 0) (Finite 4) (Finite 0) (Finite 10) = Finite 40 \<and>
   EtoX (painter0\<lparr>fXZoom := Finite 4\<rparr>) (Finite 10) = Some 40"
proof -
  note inst =
    transforms_follow_spec_formulas [where p = "painter0\<lparr>fXZoom := Finite 4\<rparr>"
      and x = "Finite 40" and e = "Finite 10" and k = 40 and q = painter0]
  have base: "uint_to_double (fXBase painter0) = Finite 0"
    by (simp add: painter0_def uint_to_double_def)
  have offset: "fXOffset painter0 = Finite 0"
    by (simp add: painter0_def)
  have a: "spec_xToEnergy (Finite 0) (Finite 4) (Finite 0) (Finite 40) = Finite 10"
    by (simp add: spec_xToEnergy_def arith rounding)
  have b: "spec_energyToX (Finite 0) (Finite 4) (Finite 0) (Finite 10) = Finite 40"
    by (simp add: spec_energyToX_def arith rounding)
  from inst have "XtoE_double (painter0\<lparr>fXZoom := Finite 4\<rparr>) (Finite 40) = Finite 10"
    by (simp add: base offset a)
  moreover from inst have "EtoX (painter0\<lparr>fXZoom := Finite 4\<rparr>) (Finite 10) = Some 40"
    by (simp add: base offset b double_value_def double_to_int_def)
  ultimately show ?thesis using b by simp
qed

text \<open>
  C4. The overload of \<open>XtoE\<close> on \<^verbatim>\<open>UInt_t\<close> subtracts before it converts, so for a pixel
  left of the base point the difference wraps: with base 10 and zoom 1, pixel 5 yields
  4294967291, where the formula \<open>(x - xBase) / xZoom + xOffset\<close> and the overload on
  \<^verbatim>\<open>double\<close> yield -5.
\<close>

theorem XtoE_UInt_wraps_below_base:
  "XtoE (SetXVisibleRegion (Finite 400) (SetBasePoint 10 0 (painter0\<lparr>fWidth := 400\<rparr>))) 5 = Finite 4294967291 \<and>
   XtoE_double (SetXVisibleRegion (Finite 400) (SetBasePoint 10 0 (painter0\<lparr>fWidth := 400\<rparr>))) (Finite 5) = Finite (- 5) \<and>
   spec_xToEnergy (Finite 10) (Finite 1) (Finite 0) (Finite 5) = Finite (- 5)"
  by (simp add: XtoE_def XtoE_double_def spec_xToEnergy_def SetXVisibleRegion_def
      SetBasePoint_def painter0_def arith rounding)

text \<open>
  C2. The round trip through the \<^verbatim>\<open>UInt_t\<close> overload at the same pixel: the zoom is
  positive, set by \<open>SetXVisibleRegion\<close> from a positive width and region; \<open>XtoE 5\<close> is
  4294967291, the pixel \<open>EtoX\<close> computes for it is 4294967301, which no \<^verbatim>\<open>int\<close> holds, so
  the result is not a pixel within 1 of 5. Through the \<^verbatim>\<open>double\<close> overload the round trip
  returns 5.
\<close>

theorem roundtrip_fails_below_base:
  "fXZoom (SetXVisibleRegion (Finite 400) (SetBasePoint 10 0 (painter0\<lparr>fWidth := 400\<rparr>))) = Finite 1 \<and>
   spec_energyToX (Finite 10) (Finite 1) (Finite 0) (XtoE (SetXVisibleRegion (Finite 400) (SetBasePoint 10 0 (painter0\<lparr>fWidth := 400\<rparr>))) 5) = Finite 4294967301 \<and>
   EtoX (SetXVisibleRegion (Finite 400) (SetBasePoint 10 0 (painter0\<lparr>fWidth := 400\<rparr>))) (XtoE (SetXVisibleRegion (Finite 400) (SetBasePoint 10 0 (painter0\<lparr>fWidth := 400\<rparr>))) 5) = None \<and>
   EtoX (SetXVisibleRegion (Finite 400) (SetBasePoint 10 0 (painter0\<lparr>fWidth := 400\<rparr>))) (XtoE_double (SetXVisibleRegion (Finite 400) (SetBasePoint 10 0 (painter0\<lparr>fWidth := 400\<rparr>))) (Finite 5)) = Some 5"
  by (simp add: XtoE_def XtoE_double_def EtoX_def spec_energyToX_def SetXVisibleRegion_def
      SetBasePoint_def painter0_def arith rounding)

subsection \<open>The modified logarithm on the reals\<close>

lemma ModLog_nonneg: "0 \<le> x \<Longrightarrow> ModLog x = ln (1 + x)"
  by (cases "x = 0") (simp_all add: ModLog_def)

lemma ModLog_neg: "x < 0 \<Longrightarrow> ModLog x = - ln (1 - x)"
  by (simp add: ModLog_def)

lemma ModLog_zero: "ModLog 0 = 0"
  by (simp add: ModLog_def)

lemma ModLog_strict_mono: "x < y \<Longrightarrow> ModLog x < ModLog y"
proof -
  assume xy: "x < y"
  consider "0 \<le> x" | "x < 0" "0 \<le> y" | "y < 0" using xy by linarith
  then show ?thesis
  proof cases
    case 1
    then show ?thesis using xy by (simp add: ModLog_nonneg)
  next
    case 2
    have "ModLog x < 0" using 2 by (simp add: ModLog_neg)
    moreover have "0 \<le> ModLog y" using 2 by (simp add: ModLog_nonneg)
    ultimately show ?thesis by linarith
  next
    case 3
    then show ?thesis using xy by (simp add: ModLog_neg)
  qed
qed

subsection \<open>The x zoom invariant\<close>

lemma xzoom_inv_SetXVisibleRegion: "xzoom_inv (SetXVisibleRegion xv p)"
  by (simp add: xzoom_inv_def SetXVisibleRegion_def Let_def)

lemma xzoom_inv_SetSize: "xzoom_inv (SetSize ml w h p)"
  by (simp add: xzoom_inv_def SetSize_def UpdateYZoom_def Let_def)

lemma x_frame:
  "\<not> sets_width_or_xregion x \<Longrightarrow>
     fXZoom (apply_op ml x p) = fXZoom p \<and> fWidth (apply_op ml x p) = fWidth p \<and>
     fXVisibleRegion (apply_op ml x p) = fXVisibleRegion p"
  by (cases x)
     (simp_all add: sets_width_or_xregion_def SetYVisibleRegion_def SetLogScale_def
        SetViewMode_def SetBasePoint_def SetDrawable_def SetAxisGC_def SetClearGC_def
        SetXOffset_def SetYOffset_def UpdateYZoom_def)

lemma xzoom_inv_apply_op: "xzoom_inv p \<Longrightarrow> xzoom_inv (apply_op ml x p)"
proof (cases "sets_width_or_xregion x")
  case True
  then show ?thesis
    by (cases x)
       (simp_all add: sets_width_or_xregion_def xzoom_inv_SetXVisibleRegion xzoom_inv_SetSize)
next
  case False
  assume "xzoom_inv p"
  with x_frame [OF False, of ml p] show ?thesis by (simp add: xzoom_inv_def)
qed

lemma xzoom_inv_run_ops: "xzoom_inv p \<Longrightarrow> xzoom_inv (run_ops ml xs p)"
  by (induction xs arbitrary: p) (simp_all add: xzoom_inv_apply_op)

text \<open>
  C3. \<open>xZoom = width / xVisibleRegion\<close> holds after every operation of the painter:
  \<open>SetXVisibleRegion\<close> and \<open>SetSize\<close> establish it from any state, every other operation
  leaves \<open>xZoom\<close>, the width and the visible region as they were (none assigns \<open>xZoom\<close>),
  and so every operation and every run of operations preserves it.
\<close>

theorem xzoom_invariant:
  "xzoom_inv (SetXVisibleRegion xv p) \<and>
   xzoom_inv (SetSize ml w h p) \<and>
   (\<not> sets_width_or_xregion x \<longrightarrow>
      fXZoom (apply_op ml x p) = fXZoom p \<and> fWidth (apply_op ml x p) = fWidth p \<and>
      fXVisibleRegion (apply_op ml x p) = fXVisibleRegion p) \<and>
   (xzoom_inv p \<longrightarrow> xzoom_inv (apply_op ml x p)) \<and>
   (xzoom_inv p \<longrightarrow> xzoom_inv (run_ops ml xs p))"
proof (intro conjI impI)
  show "xzoom_inv (SetXVisibleRegion xv p)" by (rule xzoom_inv_SetXVisibleRegion)
  show "xzoom_inv (SetSize ml w h p)" by (rule xzoom_inv_SetSize)
next
  assume "\<not> sets_width_or_xregion x"
  then show "fXZoom (apply_op ml x p) = fXZoom p" "fWidth (apply_op ml x p) = fWidth p"
    "fXVisibleRegion (apply_op ml x p) = fXVisibleRegion p"
    by (simp_all add: x_frame)
next
  assume "xzoom_inv p"
  then show "xzoom_inv (apply_op ml x p)" by (rule xzoom_inv_apply_op)
next
  assume "xzoom_inv p"
  then show "xzoom_inv (run_ops ml xs p)" by (rule xzoom_inv_run_ops)
qed

theorem xzoom_invariant_witness:
  "xzoom_inv (SetXVisibleRegion (Finite 100) (painter0\<lparr>fWidth := 400\<rparr>)) \<and>
   \<not> sets_width_or_xregion (OpSetYOffset (Finite 3)) \<and>
   fXZoom (apply_op dneg (OpSetYOffset (Finite 3))
      (SetXVisibleRegion (Finite 100) (painter0\<lparr>fWidth := 400\<rparr>))) = Finite 4 \<and>
   xzoom_inv (apply_op dneg (OpSetYOffset (Finite 3))
      (SetXVisibleRegion (Finite 100) (painter0\<lparr>fWidth := 400\<rparr>))) \<and>
   xzoom_inv
     (run_ops dneg [OpSetXOffset (Finite 7), OpSetSize 800 600, OpSetLogScale True]
        (SetXVisibleRegion (Finite 100) (painter0\<lparr>fWidth := 400\<rparr>))) \<and>
   fXZoom
     (run_ops dneg [OpSetXOffset (Finite 7), OpSetSize 800 600, OpSetLogScale True]
        (SetXVisibleRegion (Finite 100) (painter0\<lparr>fWidth := 400\<rparr>))) = Finite 8"
proof -
  let ?p = "SetXVisibleRegion (Finite 100) (painter0\<lparr>fWidth := 400\<rparr>)"
  let ?xs = "[OpSetXOffset (Finite 7), OpSetSize 800 600, OpSetLogScale True]"
  note inst =
    xzoom_invariant [where xv = "Finite 100" and p = "painter0\<lparr>fWidth := 400\<rparr>" and ml = dneg
      and w = 0 and h = 0 and x = "OpSetYOffset (Finite 3)" and xs = ?xs]
  note inst' =
    xzoom_invariant [where xv = "Finite 100" and p = ?p and ml = dneg and w = 0 and h = 0
      and x = "OpSetYOffset (Finite 3)" and xs = ?xs]
  have p: "xzoom_inv ?p" using inst by simp
  have frame: "\<not> sets_width_or_xregion (OpSetYOffset (Finite 3))"
    by (simp add: sets_width_or_xregion_def)
  have z: "fXZoom ?p = Finite 4"
    by (simp add: SetXVisibleRegion_def painter0_def arith rounding)
  have "fXZoom (apply_op dneg (OpSetYOffset (Finite 3)) ?p) = Finite 4"
    using inst' frame z by simp
  moreover have "xzoom_inv (apply_op dneg (OpSetYOffset (Finite 3)) ?p)"
    using inst' p by simp
  moreover have "xzoom_inv (run_ops dneg ?xs ?p)" using inst' p by simp
  moreover have "fXZoom (run_ops dneg ?xs ?p) = Finite 8"
    by (simp add: SetXVisibleRegion_def SetXOffset_def SetSize_def SetLogScale_def
        UpdateYZoom_def painter0_def arith rounding)
  ultimately show ?thesis using p frame by simp
qed

subsection \<open>The y zoom\<close>



subsection \<open>Id allocation in the collections\<close>

lemma first_vacant_le: "first_vacant xs \<le> length xs"
  by (induction xs rule: first_vacant.induct) simp_all

lemma first_vacant_taken: "i < first_vacant xs \<Longrightarrow> \<exists>y. xs ! i = Some y"
proof (induction xs arbitrary: i rule: first_vacant.induct)
  case (3 x xs)
  then show ?case by (cases i) simp_all
qed simp_all

lemma first_vacant_free: "first_vacant xs < length xs \<Longrightarrow> xs ! first_vacant xs = None"
  by (induction xs rule: first_vacant.induct) simp_all

lemma first_vacant_append_None: "first_vacant (xs @ [None]) = first_vacant xs"
  by (induction xs rule: first_vacant.induct) simp_all

lemma first_vacant_refree: "first_vacant (xs[first_vacant xs := None]) = first_vacant xs"
  by (induction xs rule: first_vacant.induct) simp_all

lemma AddItem_id: "fst (AddItem items x) = int (first_vacant items)"
  by (simp add: AddItem_def FindFreeId_def Let_def)

lemma AddItem_items:
  "snd (AddItem items x) =
     (if first_vacant items < length items then items[first_vacant items := Some x]
      else items @ [Some x])"
  using first_vacant_le [of items]
  by (simp add: AddItem_def FindFreeId_def Let_def list_update_append)

lemma AddItem_get_new: "GetItem (snd (AddItem items x)) (fst (AddItem items x)) = Some x"
  using first_vacant_le [of items]
  by (auto simp add: AddItem_id AddItem_items GetItem_def nth_append)

lemma AddItem_get_old:
  assumes "GetItem items j = Some y"
  shows "GetItem (snd (AddItem items x)) j = Some y \<and> j \<noteq> fst (AddItem items x)"
proof -
  from assms have j: "0 \<le> j" "nat j < length items" "items ! nat j = Some y"
    by (auto simp add: GetItem_def split: if_splits)
  have ne: "nat j \<noteq> first_vacant items"
    using j first_vacant_free [of items] by auto
  then have "j \<noteq> int (first_vacant items)" by auto
  moreover have "GetItem (snd (AddItem items x)) j = Some y"
    using j ne by (auto simp add: AddItem_items GetItem_def nth_append)
  ultimately show ?thesis by (simp add: AddItem_id)
qed

lemma DeleteItem_get_other: "j \<noteq> i \<Longrightarrow> GetItem (DeleteItem items i) j = GetItem items j"
  by (auto simp add: DeleteItem_def GetItem_def)

lemma DeleteItem_get_same: "GetItem (DeleteItem items i) i = None"
  by (auto simp add: DeleteItem_def GetItem_def)

lemma Add_Delete_items:
  "DeleteItem (snd (AddItem items x)) (fst (AddItem items x)) =
     (if first_vacant items < length items then items[first_vacant items := None]
      else items @ [None])"
  using first_vacant_le [of items]
  by (auto simp add: AddItem_id AddItem_items DeleteItem_def)

lemma Add_Delete_Add_id:
  "fst (AddItem (DeleteItem (snd (AddItem items x)) (fst (AddItem items x))) z) =
     fst (AddItem items x)"
  unfolding Add_Delete_items
  by (simp add: AddItem_id first_vacant_refree first_vacant_append_None)

lemma lowest_free:
  assumes "0 \<le> j" "j < fst (AddItem items x)"
  shows "\<exists>y. GetItem items j = Some y"
proof -
  from assms have "nat j < first_vacant items" by (simp add: AddItem_id)
  moreover from this have "nat j < length items" using first_vacant_le [of items] by linarith
  ultimately show ?thesis using first_vacant_taken [of "nat j" items] assms(1)
    by (simp add: GetItem_def)
qed

lemma Add_ids_per_collection:
  "fst (AddSpec s c u v) = int (first_vacant (fSpectra v)) \<and>
   fst (AddFunc s c u v) = int (first_vacant (fFunctions v)) \<and>
   fst (AddXMarker pos c' u v) = int (first_vacant (fXMarkers v)) \<and>
   fst (AddYMarker pos c' u v) = int (first_vacant (fYMarkers v))"
  by (simp add: AddSpec_def AddFunc_def AddXMarker_def AddYMarker_def AddItem_id
      case_prod_unfold)

lemma spectra_scenario:
  "fSpectra v = [] \<Longrightarrow>
    (case AddSpec sA cA u v of (a, v1) \<Rightarrow>
     case AddSpec sB cB u v1 of (b, v2) \<Rightarrow>
     case AddSpec sC cC u (DeleteSpec a u v2) of (c, v3) \<Rightarrow>
       a = 0 \<and> b = 1 \<and> c = 0 \<and>
       GetDisplaySpec v2 1 = Some \<lparr>obj_data = sB, obj_color = cB\<rparr> \<and>
       GetDisplaySpec v3 1 = Some \<lparr>obj_data = sB, obj_color = cB\<rparr> \<and>
       GetDisplaySpec v3 0 = Some \<lparr>obj_data = sC, obj_color = cC\<rparr>)"
  by (simp add: AddSpec_def DeleteSpec_def GetDisplaySpec_def AddItem_def FindFreeId_def
      DeleteItem_def GetItem_def Update_def Let_def)

lemma markers_scenario:
  "fst (AddXMarker pos color u (DeleteAllXMarkers u' v)) = 0"
  by (simp add: AddXMarker_def DeleteAllXMarkers_def AddItem_def FindFreeId_def Update_def
      Let_def)

text \<open>
  C5. Ids are allocated first-fit over vacated slots, in each collection on its own. When
  an object is added with id \<open>i\<close> and then deleted, every object that was in the
  collection before keeps its id through both steps, \<open>i\<close> was the lowest free id, and \<open>i\<close>
  is the id of the next object added. In an empty collection of spectra, A gets id 0 and B
  id 1; after A is deleted, C gets id 0 and B is still found under id 1. After
  \<open>DeleteAllXMarkers\<close> the next \<open>AddXMarker\<close> returns id 0. The id an \<open>Add*\<close> returns
  depends on its own collection only.
\<close>

theorem id_recycling_first_fit:
  assumes "AddItem items x = (i, items1)" and "DeleteItem items1 i = items2"
  shows
    "(\<forall>j y. GetItem items j = Some y \<longrightarrow>
        j \<noteq> i \<and> GetItem items1 j = Some y \<and> GetItem items2 j = Some y) \<and>
     GetItem items1 i = Some x \<and>
     (\<forall>j. 0 \<le> j \<and> j < i \<longrightarrow> GetItem items j \<noteq> None) \<and>
     GetItem items2 i = None \<and>
     fst (AddItem items2 z) = i \<and>
     (fSpectra v = [] \<longrightarrow>
       (case AddSpec sA cA u v of (a, v1) \<Rightarrow>
        case AddSpec sB cB u v1 of (b, v2) \<Rightarrow>
        case AddSpec sC cC u (DeleteSpec a u v2) of (c, v3) \<Rightarrow>
          a = 0 \<and> b = 1 \<and> c = 0 \<and>
          GetDisplaySpec v2 1 = Some \<lparr>obj_data = sB, obj_color = cB\<rparr> \<and>
          GetDisplaySpec v3 1 = Some \<lparr>obj_data = sB, obj_color = cB\<rparr> \<and>
          GetDisplaySpec v3 0 = Some \<lparr>obj_data = sC, obj_color = cC\<rparr>)) \<and>
     fst (AddXMarker pos col u (DeleteAllXMarkers u' v)) = 0 \<and>
     fst (AddSpec sA cA u v) = int (first_vacant (fSpectra v)) \<and>
     fst (AddFunc sA cA u v) = int (first_vacant (fFunctions v)) \<and>
     fst (AddXMarker pos col u v) = int (first_vacant (fXMarkers v)) \<and>
     fst (AddYMarker pos col u v) = int (first_vacant (fYMarkers v))"
proof -
  from assms have i: "i = fst (AddItem items x)" and items1: "items1 = snd (AddItem items x)"
    by simp_all
  from assms(2) have items2: "items2 = DeleteItem (snd (AddItem items x)) (fst (AddItem items x))"
    by (simp add: i items1)
  have old: "\<forall>j y. GetItem items j = Some y \<longrightarrow>
        j \<noteq> i \<and> GetItem items1 j = Some y \<and> GetItem items2 j = Some y"
  proof (intro allI impI)
    fix j y
    assume "GetItem items j = Some y"
    then have a: "GetItem items1 j = Some y" and b: "j \<noteq> i"
      using AddItem_get_old [of items j y x] by (simp_all add: i items1)
    from b have "GetItem items2 j = GetItem items1 j"
      using assms(2) DeleteItem_get_other [of j i items1] by simp
    with a b show "j \<noteq> i \<and> GetItem items1 j = Some y \<and> GetItem items2 j = Some y"
      by simp
  qed
  have new: "GetItem items1 i = Some x"
    by (simp add: i items1 AddItem_get_new)
  have lowest: "\<forall>j. 0 \<le> j \<and> j < i \<longrightarrow> GetItem items j \<noteq> None"
    using lowest_free [of _ items x] by (auto simp add: i)
  have freed: "GetItem items2 i = None"
    using assms(2) DeleteItem_get_same [of items1 i] by simp
  have again: "fst (AddItem items2 z) = i"
    by (simp only: items2 i Add_Delete_Add_id)
  have ids: "fst (AddSpec sA cA u v) = int (first_vacant (fSpectra v)) \<and>
     fst (AddFunc sA cA u v) = int (first_vacant (fFunctions v)) \<and>
     fst (AddXMarker pos col u v) = int (first_vacant (fXMarkers v)) \<and>
     fst (AddYMarker pos col u v) = int (first_vacant (fYMarkers v))"
    by (rule Add_ids_per_collection)
  from old new lowest freed again ids show ?thesis
    using spectra_scenario [where v = v and sA = sA and cA = cA and u = u and sB = sB
        and cB = cB and sC = sC and cC = cC]
      markers_scenario [where pos = pos and color = col and u = u and u' = u' and v = v]
    by blast
qed

theorem id_recycling_first_fit_witness:
  "AddItem [Some (10::nat), None, Some 30] 20 = (1, [Some 10, Some 20, Some 30]) \<and>
   DeleteItem [Some (10::nat), Some 20, Some 30] 1 = [Some 10, None, Some 30] \<and>
   GetItem [Some (10::nat), None, Some 30] 2 = Some 30 \<and>
   GetItem [Some (10::nat), Some 20, Some 30] 2 = Some 30 \<and>
   GetItem [Some (10::nat), None, Some 30] 0 \<noteq> None \<and>
   fst (AddItem [Some (10::nat), None, Some 30] 40) = 1 \<and>
   fSpectra viewport0 = [] \<and>
   fst (AddSpec 7 1 True viewport0) = 0"
proof -
  have add: "AddItem [Some (10::nat), None, Some 30] 20 = (1, [Some 10, Some 20, Some 30])"
    by (simp add: AddItem_def FindFreeId_def)
  have del: "DeleteItem [Some (10::nat), Some 20, Some 30] 1 = [Some 10, None, Some 30]"
    by (simp add: DeleteItem_def)
  note inst =
    id_recycling_first_fit [OF add del, where z = 40 and v = viewport0 and sA = 7 and cA = 1
      and u = True and sB = 8 and cB = 2 and sC = 9 and cC = 3 and pos = "Finite 0" and col = 0
      and u' = True]
  have get: "GetItem [Some (10::nat), None, Some 30] 2 = Some 30"
    by (simp add: GetItem_def)
  have empty: "fSpectra viewport0 = []"
    by (simp add: viewport0_def)
  from inst get have "GetItem [Some (10::nat), Some 20, Some 30] 2 = Some 30" by blast
  moreover from inst have "GetItem [Some (10::nat), None, Some 30] 0 \<noteq> None" by simp
  moreover from inst have "fst (AddItem [Some (10::nat), None, Some 30] 40) = 1" by blast
  moreover from inst empty have "fst (AddSpec 7 1 True viewport0) = 0" by simp
  ultimately show ?thesis using add del get empty by simp
qed

subsection \<open>Event handling in the viewer\<close>

text \<open>
  C9. \<open>HandleKey\<close> returns true for every event and emits \<open>KeyPressed\<close> (after the
  toolkit's \<open>LookupString\<close>) exactly when the event type is \<open>kGKeyPress\<close>. \<open>ProcessMessage\<close>
  is declared to return a value and never does: for every message, whatever its kind and
  submessage, the call flows off the end of the function and its behaviour is undefined,
  so the source does not make the call of \<open>HandleScrollbar\<close> depend on the message.
\<close>

theorem ProcessMessage_never_returns:
  "ProcessMessage tk msg parm1 parm2 v = UndefinedBehaviour \<and>
   ProcessMessage tk msg parm1 parm2 v \<noteq> Returns r \<and>
   fst (HandleKey tk ev v) = True \<and>
   emitted v (snd (HandleKey tk ev v)) =
     (if fType ev = kGKeyPress tk then [LookupString ev, KeyPressed] else []) \<and>
   (KeyPressed \<in> set (emitted v (snd (HandleKey tk ev v)))) = (fType ev = kGKeyPress tk)"
  by (simp add: ProcessMessage_def flows_off_the_end_def emitted_def HandleKey_def Let_def)

subsection \<open>The plot area test\<close>

text \<open>
  C10. \<open>IsWithin x y\<close> is true exactly when \<open>xBase \<le> x \<le> xBase + width\<close> and
  \<open>yBase - height \<le> y \<le> yBase\<close>, where the sum and the difference are taken modulo
  \<open>2 ^ 32\<close> (so the lower y bound wraps when \<open>height > yBase\<close>), every comparison is on the
  unsigned values, and all four bounds are inclusive.
\<close>

theorem IsWithin_unsigned32:
  "IsWithin p x y =
     (uint (fXBase p) \<le> uint x \<and>
      uint x \<le> (uint (fXBase p) + uint (fWidth p)) mod 2 ^ 32 \<and>
      (uint (fYBase p) - uint (fHeight p)) mod 2 ^ 32 \<le> uint y \<and>
      uint y \<le> uint (fYBase p))"
  by (simp add: IsWithin_def word_le_def uint_word_ariths)

end
